theory Spec2Isabelle
  imports Complex_Main
begin

section \<open>The pay-package and gross-margin calculator (\<open>src/index.tsx\<close>)\<close>

text \<open>
  The source is one TypeScript file. Its engine is the function \<open>recalc\<close>: it reads the
  form fields of the page, derives every figure in one pass, writes two derived values
  back into input fields (\<open>sick_hours\<close>, \<open>pay_ot\<close>), writes the formatted figures into
  text placeholders and draws the gauge.

  Numbers. A JavaScript number is an IEEE-754 double. The first model, up to \<open>recalc\<close>
  below, computes with exact rationals (\<^typ>\<open>rat\<close>) and so with finite values only; the
  rounding error of the double arithmetic has no counterpart in it. The one rounding the
  source asks for by name, \<open>toFixed(2)\<close>, is a parameter (see \<open>two_decimals\<close>). The
  non-finite values, \<open>NaN\<close> and the infinities that overflow produces, are the subject
  of the second model (suffix \<open>_js\<close>).

  The page. \<open>el(id)\<close> is \<open>document.getElementById(id)\<close>; an element may be missing from
  the page. A numeric input is modelled by what \<open>parseFloat\<close> followed by \<open>isFinite\<close>
  make of its \<open>value\<close> string, which is all that \<open>valNum\<close> looks at.
\<close>

subsection \<open>Form fields\<close>

datatype field =
    Absent        \<comment> \<open>\<open>el(id)\<close> is \<open>null\<close>\<close>
  | Blank         \<comment> \<open>the element exists, \<open>parseFloat(value)\<close> is not a finite number (for example \<open>''\<close>)\<close>
  | Num rat       \<comment> \<open>the element exists, \<open>parseFloat(value)\<close> is this finite number\<close>

text \<open>
  The elements that \<open>recalc\<close> and \<open>renderGauge\<close> read or write through \<open>value\<close> or
  \<open>checked\<close>. For the two selects and the checkbox \<open>None\<close> is the missing element.
\<close>

record form =
  el_client :: "string option"
  el_bill_regular :: field
  el_bill_ot :: field
  el_pay_regular :: field
  el_pay_ot :: field
  el_hrs_regular :: field
  el_hrs_ot :: field
  el_contract_len :: field
  el_house_daily :: field
  el_meals_daily :: field
  el_orient_type :: "string option"
  el_orient_hours :: field
  el_orient_pay :: field
  el_bonus_start :: field
  el_bonus_complete :: field
  el_bcg_reimb :: field
  el_sick_hours :: field
  el_schedule_days :: field
  el_auto_sick_calc :: "bool option"

subsection \<open>Constants and helpers (lines 30 to 63)\<close>

definition CLIENT_FEES :: "string \<rightharpoonup> rat" where
  "CLIENT_FEES = map_of
     [(''SimpliFI'', 6 / 100),
      (''Careerstaff'', 35 / 1000),
      (''Medical Solutions'', 42 / 1000),
      (''AMN'', 5 / 100),
      (''HWL'', 45 / 1000),
      (''Eisenhower Health'', 38 / 1000),
      (''Focus One'', 4 / 100),
      (''Priority Group'', 39 / 1000),
      (''Intermountain Health'', 41 / 1000),
      (''AYA'', 48 / 1000),
      (''NYCHH'', 55 / 1000),
      (''Medefis'', 43 / 1000)]"

text \<open>
  \<open>CLIENT_FEES[client] || 0\<close> is the fee of a listed client and 0 for any other name; the
  properties every JavaScript object inherits (\<open>constructor\<close>, \<open>toString\<close>, ...) are
  not client names of the page and are left out of the table.
\<close>

definition BURDEN :: rat where
  "BURDEN = 123 / 100"

definition WEEKS_IN_MONTH :: rat where
  "WEEKS_IN_MONTH = 4"

definition DEFAULT_SCHEDULE_DAYS :: rat where
  "DEFAULT_SCHEDULE_DAYS = 5"

text \<open>
  \<open>fmtUSD(v)\<close> formats \<open>isFinite(v) ? v : 0\<close> as a currency string. The model keeps the
  amount handed to the formatter; every rational is finite.
\<close>

definition fmtUSD :: "rat \<Rightarrow> rat" where
  "fmtUSD v = v"

text \<open>\<open>valNum(id, fallback)\<close>: the fallback for a missing element and for a value that is not finite.\<close>

fun valNum :: "field \<Rightarrow> rat \<Rightarrow> rat" where
  "valNum Absent fallback = fallback"
| "valNum Blank fallback = fallback"
| "valNum (Num v) fallback = v"

text \<open>\<open>setValue(id, value)\<close>: nothing happens when the element is missing.\<close>

fun setValue :: "field \<Rightarrow> field \<Rightarrow> field" where
  "setValue Absent new = Absent"
| "setValue Blank new = new"
| "setValue (Num v) new = new"

text \<open>
  \<open>x.toFixed(2)\<close> read back by \<open>parseFloat\<close>. The program applies \<open>toFixed\<close> to the double
  it has computed, which need not be the exact value: where the exact value is half a
  cent (16.575), the double lies just below or just above it and either neighbouring cent
  can be written (16.57 or 16.58). The functions that write with \<open>toFixed(2)\<close> therefore
  take the rounding \<open>toFixed\<close> as a parameter. What is known of it is \<open>two_decimals\<close>: the
  result is a multiple of 0.01 and is within 0.005 of the exact value.
\<close>

definition two_decimals :: "(rat \<Rightarrow> rat) \<Rightarrow> bool" where
  "two_decimals toFixed \<longleftrightarrow>
     (\<forall>x. (\<exists>n :: int. toFixed x = of_int n / 100)
          \<and> \<bar>toFixed x - x\<bar> \<le> 1 / 200)"

text \<open>
  One such rounding, used for the concrete forms below: \<open>toFixed(2)\<close> of ECMA-262
  (Number.prototype.toFixed) on the exact value, that is the multiple \<open>n / 100\<close> nearest to
  \<open>x\<close>, the larger \<open>n\<close> at a tie, with the sign split off first.
\<close>

definition toFixed2 :: "rat \<Rightarrow> rat" where
  "toFixed2 x =
     (if x < 0 then - (of_int \<lfloor>(- x) * 100 + 1 / 2\<rfloor> / 100)
      else of_int \<lfloor>x * 100 + 1 / 2\<rfloor> / 100)"

subsection \<open>\<open>recalc\<close>: inputs (lines 161 to 179)\<close>

definition client :: "form \<Rightarrow> string" where
  "client p = (case el_client p of None \<Rightarrow> ''SimpliFI''
               | Some v \<Rightarrow> if v = [] then ''SimpliFI'' else v)"

definition fee :: "form \<Rightarrow> rat" where
  "fee p = (case CLIENT_FEES (client p) of None \<Rightarrow> 0 | Some f \<Rightarrow> f)"

definition billR :: "form \<Rightarrow> rat" where
  "billR p = valNum (el_bill_regular p) 0"

definition billOT :: "form \<Rightarrow> rat" where
  "billOT p = valNum (el_bill_ot p) 0"

definition payR :: "form \<Rightarrow> rat" where
  "payR p = valNum (el_pay_regular p) 0"

definition hrsR :: "form \<Rightarrow> rat" where
  "hrsR p = valNum (el_hrs_regular p) 0"

definition hrsOT :: "form \<Rightarrow> rat" where
  "hrsOT p = valNum (el_hrs_ot p) 0"

definition weeks :: "form \<Rightarrow> rat" where
  "weeks p = valNum (el_contract_len p) 0"

definition houseDaily :: "form \<Rightarrow> rat" where
  "houseDaily p = valNum (el_house_daily p) 0"

definition mealsDaily :: "form \<Rightarrow> rat" where
  "mealsDaily p = valNum (el_meals_daily p) 0"

definition orientType :: "form \<Rightarrow> string" where
  "orientType p = (case el_orient_type p of None \<Rightarrow> ''Non Billable''
                   | Some v \<Rightarrow> if v = [] then ''Non Billable'' else v)"

definition orientHours :: "form \<Rightarrow> rat" where
  "orientHours p = valNum (el_orient_hours p) 0"

definition orientPay :: "form \<Rightarrow> rat" where
  "orientPay p = valNum (el_orient_pay p) 0"

definition bonusStart :: "form \<Rightarrow> rat" where
  "bonusStart p = valNum (el_bonus_start p) 0"

definition bonusComplete :: "form \<Rightarrow> rat" where
  "bonusComplete p = valNum (el_bonus_complete p) 0"

definition bcgReimb :: "form \<Rightarrow> rat" where
  "bcgReimb p = valNum (el_bcg_reimb p) 0"

definition scheduleDays :: "form \<Rightarrow> rat" where
  "scheduleDays p = valNum (el_schedule_days p) DEFAULT_SCHEDULE_DAYS"

subsection \<open>\<open>recalc\<close>: derived base values (lines 184 to 219)\<close>

definition hrAfterFee :: "form \<Rightarrow> rat" where
  "hrAfterFee p = billR p * (1 - fee p)"

definition otHrAfterFee :: "form \<Rightarrow> rat" where
  "otHrAfterFee p = billOT p * (1 - fee p)"

definition ND :: "form \<Rightarrow> rat" where
  "ND p = houseDaily p + mealsDaily p"

definition NW :: "form \<Rightarrow> rat" where
  "NW p = ND p * 7"

definition NH :: "form \<Rightarrow> rat" where
  "NH p = (if hrsR p > 40 then NW p / 40 else (if hrsR p > 0 then NW p / hrsR p else 0))"

definition HA_hourly :: "form \<Rightarrow> rat" where
  "HA_hourly p = (if hrsR p > 40 then houseDaily p * 7 / 40
                  else (if hrsR p > 0 then houseDaily p * 7 / hrsR p else 0))"

definition MI_hourly :: "form \<Rightarrow> rat" where
  "MI_hourly p = (if hrsR p > 40 then mealsDaily p * 7 / 40
                  else (if hrsR p > 0 then mealsDaily p * 7 / hrsR p else 0))"

definition contractRegularHours :: "form \<Rightarrow> rat" where
  "contractRegularHours p = hrsR p * weeks p"

definition contractOTHours :: "form \<Rightarrow> rat" where
  "contractOTHours p = hrsOT p * weeks p"

definition totalContractHours :: "form \<Rightarrow> rat" where
  "totalContractHours p = contractRegularHours p + contractOTHours p"

definition autoSickHours :: "form \<Rightarrow> rat" where
  "autoSickHours p = totalContractHours p / 30"

text \<open>
  Line 202: \<open>if (!sickBox || (sickBox && sickBox.checked)) setValue("sick_hours", ...)\<close>.
  \<open>sickBoxAuto\<close> is the condition, \<open>sick_hours_written\<close> the field after the line.
\<close>

definition sickBoxAuto :: "form \<Rightarrow> bool" where
  "sickBoxAuto p = (case el_auto_sick_calc p of None \<Rightarrow> True | Some checked \<Rightarrow> checked)"

definition sick_hours_written :: "(rat \<Rightarrow> rat) \<Rightarrow> form \<Rightarrow> field" where
  "sick_hours_written toFixed p =
     (if sickBoxAuto p
      then setValue (el_sick_hours p)
             (if autoSickHours p > 0 then Num (toFixed (autoSickHours p)) else Blank)
      else el_sick_hours p)"

definition sickHours :: "(rat \<Rightarrow> rat) \<Rightarrow> form \<Rightarrow> rat" where
  "sickHours toFixed p = valNum (sick_hours_written toFixed p) (autoSickHours p)"

definition startBonusHourly :: "form \<Rightarrow> rat" where
  "startBonusHourly p =
     (if contractRegularHours p > 0 then bonusStart p / contractRegularHours p else 0)"

definition completeBonusHourly :: "form \<Rightarrow> rat" where
  "completeBonusHourly p =
     (if contractRegularHours p > 0 then bonusComplete p / contractRegularHours p else 0)"

definition bcgHourly :: "form \<Rightarrow> rat" where
  "bcgHourly p =
     (if contractRegularHours p > 0 then bcgReimb p / contractRegularHours p else 0)"

definition sickHourly :: "(rat \<Rightarrow> rat) \<Rightarrow> form \<Rightarrow> rat" where
  "sickHourly toFixed p =
     (if contractRegularHours p > 0
      then (sickHours toFixed p * payR p) / contractRegularHours p else 0)"

definition effectiveOrientPay :: "form \<Rightarrow> rat" where
  "effectiveOrientPay p = (if orientType p = ''Non Billable'' then 33 / 2 else orientPay p)"

definition orientPayRatePerHr :: "form \<Rightarrow> rat" where
  "orientPayRatePerHr p =
     (if orientType p = ''Billable'' then payR p + HA_hourly p + MI_hourly p
      else effectiveOrientPay p)"

definition totalOrientationPay :: "form \<Rightarrow> rat" where
  "totalOrientationPay p = orientHours p * orientPayRatePerHr p"

definition orientationHourly :: "form \<Rightarrow> rat" where
  "orientationHourly p =
     (if orientType p = ''Non Billable'' \<and> contractRegularHours p > 0
      then totalOrientationPay p / contractRegularHours p
      else 0)"

subsection \<open>\<open>recalc\<close>: payroll, billing and margins (lines 222 to 259)\<close>

definition PT_OVERTIME :: "form \<Rightarrow> rat" where
  "PT_OVERTIME p = payR p * (3 / 2)"

definition dailyRegularHours :: "form \<Rightarrow> rat" where
  "dailyRegularHours p = hrsR p / max 1 (scheduleDays p)"

definition OT_if_above_8h :: "form \<Rightarrow> rat" where
  "OT_if_above_8h p = (if dailyRegularHours p > 8 then dailyRegularHours p - 8 else 0)"

definition OT_rate_if_above_40 :: "form \<Rightarrow> rat" where
  "OT_rate_if_above_40 p = (if hrsR p > 40 then PT_OVERTIME p + NH p else 0)"

definition weeklyOnW2Taxable :: "form \<Rightarrow> rat" where
  "weeklyOnW2Taxable p =
     (if hrsR p > 40
      then ((hrsR p - (OT_if_above_8h p * scheduleDays p)) * payR p)
           + ((OT_if_above_8h p * scheduleDays p) * OT_rate_if_above_40 p)
      else hrsR p * payR p)"

definition totalWeeklyTaxableWithOT :: "form \<Rightarrow> rat" where
  "totalWeeklyTaxableWithOT p = weeklyOnW2Taxable p + (hrsOT p * PT_OVERTIME p)"

definition weeklyStipendNT :: "form \<Rightarrow> rat" where
  "weeklyStipendNT p = (if hrsR p > 40 then hrsR p * NW p / 40 else NW p)"

definition weeklyGross :: "form \<Rightarrow> rat" where
  "weeklyGross p = weeklyOnW2Taxable p + weeklyStipendNT p"

definition weeklyBillingClient :: "form \<Rightarrow> rat" where
  "weeklyBillingClient p = (hrsR p * hrAfterFee p) + (hrsOT p * otHrAfterFee p)"

definition monthlyBillingClient :: "form \<Rightarrow> rat" where
  "monthlyBillingClient p = weeklyBillingClient p * WEEKS_IN_MONTH"

definition contractBillingClient :: "form \<Rightarrow> rat" where
  "contractBillingClient p = weeklyBillingClient p * weeks p"

definition hourlyMargin :: "(rat \<Rightarrow> rat) \<Rightarrow> form \<Rightarrow> rat" where
  "hourlyMargin toFixed p =
     hrAfterFee p
     - (payR p * BURDEN)
     - (NH p + bcgHourly p)
     - ((startBonusHourly p + completeBonusHourly p + sickHourly toFixed p) * BURDEN)
     - (if orientType p = ''Non Billable'' then orientationHourly p * BURDEN else 0)"

definition otMargin :: "form \<Rightarrow> rat" where
  "otMargin p = otHrAfterFee p - (PT_OVERTIME p * BURDEN)"

definition weeklyNET :: "(rat \<Rightarrow> rat) \<Rightarrow> form \<Rightarrow> rat" where
  "weeklyNET toFixed p = (hourlyMargin toFixed p * hrsR p) + (otMargin p * hrsOT p)"

definition monthlyNET :: "(rat \<Rightarrow> rat) \<Rightarrow> form \<Rightarrow> rat" where
  "monthlyNET toFixed p = weeklyNET toFixed p * WEEKS_IN_MONTH"

definition contractNET :: "(rat \<Rightarrow> rat) \<Rightarrow> form \<Rightarrow> rat" where
  "contractNET toFixed p = weeklyNET toFixed p * weeks p"

subsection \<open>\<open>recalc\<close>: writing back (lines 264 to 313)\<close>

text \<open>Line 268: the \<open>pay_ot\<close> field after \<open>setValue("pay_ot", ...)\<close>.\<close>

definition pay_ot_written :: "(rat \<Rightarrow> rat) \<Rightarrow> form \<Rightarrow> field" where
  "pay_ot_written toFixed p =
     setValue (el_pay_ot p) (if payR p > 0 then Num (toFixed (PT_OVERTIME p)) else Blank)"

text \<open>
  The \<open>setText(id, fmtUSD(...))\<close> calls in the order of the source. \<open>setText\<close> skips an
  identifier that has no element on the page; the list holds what is handed to it.
\<close>

definition setText_calls :: "(rat \<Rightarrow> rat) \<Rightarrow> form \<Rightarrow> (string \<times> rat) list" where
  "setText_calls toFixed p =
     [(''afterfee_regular'', fmtUSD (hrAfterFee p)),
      (''afterfee_ot'', fmtUSD (otHrAfterFee p)),
      (''np_tax_hourly'', fmtUSD (payR p)),
      (''np_tax_daily'', fmtUSD (payR p * dailyRegularHours p)),
      (''np_tax_weekly'', fmtUSD (totalWeeklyTaxableWithOT p)),
      (''np_tax_monthly'', fmtUSD (totalWeeklyTaxableWithOT p * WEEKS_IN_MONTH)),
      (''np_nt_hourly'', fmtUSD (NH p)),
      (''np_nt_daily'', fmtUSD (ND p)),
      (''np_nt_weekly'', fmtUSD (weeklyStipendNT p)),
      (''np_nt_monthly'', fmtUSD (weeklyStipendNT p * WEEKS_IN_MONTH)),
      (''np_total_hourly'', fmtUSD (payR p + NH p)),
      (''np_total_daily'', fmtUSD ((payR p * dailyRegularHours p) + ND p)),
      (''np_total_weekly'', fmtUSD (totalWeeklyTaxableWithOT p + weeklyStipendNT p)),
      (''np_total_monthly'',
         fmtUSD ((totalWeeklyTaxableWithOT p + weeklyStipendNT p) * WEEKS_IN_MONTH)),
      (''gm_hourly'', fmtUSD (hourlyMargin toFixed p)),
      (''gm_weekly'', fmtUSD (weeklyNET toFixed p)),
      (''gm_monthly'', fmtUSD (monthlyNET toFixed p)),
      (''gm_contract'', fmtUSD (contractNET toFixed p)),
      (''bill_weekly'', fmtUSD (weeklyBillingClient p)),
      (''bill_monthly'', fmtUSD (monthlyBillingClient p)),
      (''bill_contract'', fmtUSD (contractBillingClient p)),
      (''pkg_total_hourly'', fmtUSD (payR p + NH p)),
      (''pkg_w2'', fmtUSD (payR p)),
      (''pkg_w2_ot'', fmtUSD (PT_OVERTIME p)),
      (''pkg_stipend_hourly'', fmtUSD (NH p)),
      (''pkg_ot_special'', fmtUSD (OT_rate_if_above_40 p)),
      (''pkg_weekly_gross'', fmtUSD (weeklyGross p)),
      (''pkg_weekly_w2'', fmtUSD (weeklyOnW2Taxable p)),
      (''pkg_weekly_stipend'', fmtUSD (weeklyStipendNT p)),
      (''orient_total'', fmtUSD (totalOrientationPay p)),
      (''hourly_start'', fmtUSD (startBonusHourly p)),
      (''hourly_complete'', fmtUSD (completeBonusHourly p)),
      (''hourly_bcg'', fmtUSD (bcgHourly p)),
      (''hourly_sick'', fmtUSD (sickHourly toFixed p))]"

subsection \<open>\<open>renderGauge\<close> (lines 319 to 347)\<close>

datatype message =
    EnterNumbers          \<comment> \<open>"Enter numbers to analyze margin."\<close>
  | MarginNegative        \<comment> \<open>"Margin is negative. Review pay rates and bill rates."\<close>
  | BelowTarget rat       \<comment> \<open>"Margin is below target of ...", with \<open>fmtUSD(target)\<close>\<close>
  | LooksHealthy          \<comment> \<open>"Margin looks healthy."\<close>

datatype colour =
    Green    \<comment> \<open>\<open>#1e8e3e\<close>\<close>
  | Amber    \<comment> \<open>\<open>#f9ab00\<close>\<close>
  | Red      \<comment> \<open>\<open>#d93025\<close>\<close>

text \<open>
  What \<open>renderGauge\<close> writes: the text of \<open>gaugeValue\<close>, the text of \<open>ma_message\<close>, the
  progress fraction and the stroke of \<open>gaugeArc\<close>. The dash offset of the arc is
  \<open>circ - progress * circ\<close> with \<open>circ = 2 * Math.PI * 60\<close>; the model keeps \<open>progress\<close>.
  As with \<open>setText\<close>, a write to a missing element is skipped by the source.
\<close>

record gauge =
  gaugeValue :: rat
  ma_message :: message
  progress :: rat
  stroke :: colour

definition renderGauge :: "form \<Rightarrow> rat \<Rightarrow> rat \<Rightarrow> gauge" where
  "renderGauge p margin target =
     \<lparr> gaugeValue = fmtUSD margin,
       ma_message =
         (if margin = 0 \<and> valNum (el_bill_regular p) 0 = 0 then EnterNumbers
          else if margin < 0 then MarginNegative
          else if margin < target then BelowTarget (fmtUSD target)
          else LooksHealthy),
       progress = max 0 (min 1 (if target > 0 then margin / (target * 2) else 0)),
       stroke = (if margin \<ge> target then Green else (if margin > 0 then Amber else Red)) \<rparr>"

subsection \<open>\<open>recalc\<close> as a whole\<close>

record rendered =
  form_after :: form                    \<comment> \<open>the form fields after the run\<close>
  texts :: "(string \<times> rat) list"        \<comment> \<open>the text placeholders\<close>
  gauge_drawn :: gauge

definition recalc :: "(rat \<Rightarrow> rat) \<Rightarrow> form \<Rightarrow> rendered" where
  "recalc toFixed p =
     \<lparr> form_after = p \<lparr> el_sick_hours := sick_hours_written toFixed p,
                         el_pay_ot := pay_ot_written toFixed p \<rparr>,
       texts = setText_calls toFixed p,
       gauge_drawn = renderGauge p (hourlyMargin toFixed p) 20 \<rparr>"

section \<open>The run over JavaScript numbers with their non-finite values\<close>

text \<open>
  A JavaScript number is a finite double, \<open>Infinity\<close>, \<open>-Infinity\<close> or \<open>NaN\<close>. The
  definitions above compute with finite values only. To say what the program does with
  the others, this section models \<open>recalc\<close> and \<open>renderGauge\<close> a second time, line by
  line as above, over \<open>jsnum\<close>. A finite value is an exact rational. A sum, product or
  quotient whose magnitude reaches \<open>2^1024 - 2^970\<close>, halfway between
  \<open>Number.MAX_VALUE\<close> and \<open>2^1024\<close>, is an infinity, as round-to-nearest makes it.
  Rounding inside the range, underflow and the sign of zero are not modelled. The names
  are those of the source with the suffix \<open>_js\<close>.
\<close>

subsection \<open>Numbers\<close>


















subsection \<open>The page\<close>



subsection \<open>Constants and helpers (lines 30 to 63)\<close>







subsection \<open>\<open>recalc\<close>: inputs (lines 161 to 179)\<close>


















subsection \<open>\<open>recalc\<close>: derived base values (lines 184 to 219)\<close>























subsection \<open>\<open>recalc\<close>: payroll, billing and margins (lines 222 to 259)\<close>

















subsection \<open>\<open>recalc\<close>: writing back (lines 264 to 313)\<close>



subsection \<open>\<open>renderGauge\<close> (lines 319 to 347)\<close>




subsection \<open>\<open>recalc\<close> as a whole\<close>



subsection \<open>The divisions\<close>


subsection \<open>A page with very long hours\<close>



section \<open>The specification's derivation steps\<close>

text \<open>
  The definitions of this section follow the words of the specification (section 4.1,
  steps 4 to 8, 10 and 15, and section 4.2), not the code, and are what the code is
  compared with. They take the raw input values as \<open>recalc\<close> reads them (\<open>billR\<close>,
  \<open>payR\<close>, \<open>hrsR\<close>, ...); "NonBillable" is the value \<open>Non Billable\<close> of the select.
\<close>

text \<open>
  Step 4: "if \<open>hoursRegular > 40\<close>, divide by 40; else if \<open>hoursRegular > 0\<close>, divide by
  \<open>hoursRegular\<close>; else 0", for the weekly total and for each of its two components.
\<close>

definition spec_spread :: "rat \<Rightarrow> rat \<Rightarrow> rat" where
  "spec_spread weekly hours =
     (if hours > 40 then weekly / 40 else if hours > 0 then weekly / hours else 0)"

definition spec_NH :: "form \<Rightarrow> rat" where
  "spec_NH p = spec_spread ((houseDaily p + mealsDaily p) * 7) (hrsR p)"

definition spec_HA_hourly :: "form \<Rightarrow> rat" where
  "spec_HA_hourly p = spec_spread (houseDaily p * 7) (hrsR p)"

definition spec_MI_hourly :: "form \<Rightarrow> rat" where
  "spec_MI_hourly p = spec_spread (mealsDaily p * 7) (hrsR p)"

text \<open>Step 5: the contract hour totals.\<close>

definition spec_contractRegularHours :: "form \<Rightarrow> rat" where
  "spec_contractRegularHours p = hrsR p * weeks p"

definition spec_totalContractHours :: "form \<Rightarrow> rat" where
  "spec_totalContractHours p = spec_contractRegularHours p + hrsOT p * weeks p"

text \<open>
  Step 6: "if \<open>autoSickCalc\<close> is true, \<open>sickHours = totalContractHours / 30\<close>; otherwise use
  the override value", a missing or unparsable override being 0 (section 6).
\<close>

definition spec_sickHours :: "form \<Rightarrow> rat" where
  "spec_sickHours p =
     (if sickBoxAuto p then spec_totalContractHours p / 30 else valNum (el_sick_hours p) 0)"

text \<open>
  Step 7: "each lump sum is divided by \<open>contractRegularHours\<close> (0 if that is 0)", the guard
  being the \<open>> 0\<close> check that section 7 names.
\<close>

definition spec_per_regular_hour :: "rat \<Rightarrow> form \<Rightarrow> rat" where
  "spec_per_regular_hour lump p =
     (if spec_contractRegularHours p > 0 then lump / spec_contractRegularHours p else 0)"

text \<open>
  Step 8: the effective orientation pay rate, and the cost per regular hour that only
  non-billable orientation has.
\<close>

definition spec_orientationRate :: "form \<Rightarrow> rat" where
  "spec_orientationRate p =
     (if orientType p = ''Non Billable'' then 33 / 2
      else payR p + spec_HA_hourly p + spec_MI_hourly p)"

definition spec_orientationHourly :: "form \<Rightarrow> rat" where
  "spec_orientationHourly p =
     (if orientType p = ''Non Billable''
      then spec_per_regular_hour (orientHours p * spec_orientationRate p) p
      else 0)"

text \<open>
  Step 15, with burden 1.23. The sick hours that enter \<open>sickHourly\<close> are a parameter;
  \<open>spec_margin\<close> takes them from step 6.
\<close>

definition spec_margin_given :: "rat \<Rightarrow> form \<Rightarrow> rat" where
  "spec_margin_given sick p =
     billR p * (1 - fee p)
     - payR p * (123 / 100)
     - (spec_NH p + spec_per_regular_hour (bcgReimb p) p)
     - (spec_per_regular_hour (bonusStart p) p + spec_per_regular_hour (bonusComplete p) p
        + spec_per_regular_hour (sick * payR p) p) * (123 / 100)
     - (if orientType p = ''Non Billable'' then spec_orientationHourly p * (123 / 100) else 0)"

definition spec_margin :: "form \<Rightarrow> rat" where
  "spec_margin p = spec_margin_given (spec_sickHours p) p"

text \<open>Step 10: \<open>otExcessHours = max(0, hoursRegular / max(1, scheduleDays) - 8)\<close>.\<close>

definition spec_otExcessHours :: "form \<Rightarrow> rat" where
  "spec_otExcessHours p = max 0 (hrsR p / max 1 (scheduleDays p) - 8)"

text \<open>Section 4.2: \<open>clamp(x, lo, hi)\<close>.\<close>

definition spec_clamp :: "rat \<Rightarrow> rat \<Rightarrow> rat \<Rightarrow> rat" where
  "spec_clamp x lo hi = (if x < lo then lo else if hi < x then hi else x)"

section \<open>Concrete forms\<close>

text \<open>
  The worked example of the specification (section 8): bill rate 50, pay 30, 36 hours
  a week for 13 weeks, housing 20 and meals 15 a day, client SimpliFI, five days a
  week, eight hours of non-billable orientation, no bonuses, automatic sick hours.
\<close>

definition spec_example :: form where
  "spec_example =
     \<lparr> el_client = Some ''SimpliFI'',
       el_bill_regular = Num 50,
       el_bill_ot = Blank,
       el_pay_regular = Num 30,
       el_pay_ot = Blank,
       el_hrs_regular = Num 36,
       el_hrs_ot = Num 0,
       el_contract_len = Num 13,
       el_house_daily = Num 20,
       el_meals_daily = Num 15,
       el_orient_type = Some ''Non Billable'',
       el_orient_hours = Num 8,
       el_orient_pay = Num (33 / 2),
       el_bonus_start = Blank,
       el_bonus_complete = Blank,
       el_bcg_reimb = Blank,
       el_sick_hours = Blank,
       el_schedule_days = Num 5,
       el_auto_sick_calc = Some True \<rparr>"

text \<open>One week of 40 hours at 100 an hour, billed at 200; the rest as in the example.\<close>

definition one_week_form :: form where
  "one_week_form = spec_example
     \<lparr> el_bill_regular := Num 200, el_pay_regular := Num 100,
       el_hrs_regular := Num 40, el_contract_len := Num 1 \<rparr>"

text \<open>Thirteen weeks of 40 hours: 520 contract hours, so 17.33... automatic sick hours.\<close>

definition forty_hours_form :: form where
  "forty_hours_form = spec_example \<lparr> el_hrs_regular := Num 40 \<rparr>"

text \<open>The same with the checkbox cleared and nothing typed into the sick-hours field.\<close>

definition manual_sick_form :: form where
  "manual_sick_form = forty_hours_form \<lparr> el_auto_sick_calc := Some False \<rparr>"

text \<open>A pay rate of 20.333 with 99 typed into the overtime field.\<close>

definition odd_pay_form :: form where
  "odd_pay_form = spec_example
     \<lparr> el_pay_regular := Num (20333 / 1000), el_pay_ot := Num 99 \<rparr>"

text \<open>A pay rate of 0 with 45 left in the overtime field.\<close>

definition zero_pay_form :: form where
  "zero_pay_form = spec_example \<lparr> el_pay_regular := Num 0, el_pay_ot := Num 45 \<rparr>"

text \<open>The second example of section 8: 45 hours a week on five days.\<close>

definition long_week_form :: form where
  "long_week_form = spec_example \<lparr> el_hrs_regular := Num 45 \<rparr>"

text \<open>The example with billable orientation.\<close>

definition billable_form :: form where
  "billable_form = spec_example \<lparr> el_orient_type := Some ''Billable'' \<rparr>"

text \<open>No contract length entered, a start bonus of 500 and a reimbursement of 100.\<close>

definition no_weeks_form :: form where
  "no_weeks_form = spec_example
     \<lparr> el_contract_len := Blank, el_bonus_start := Num 500, el_bcg_reimb := Num 100 \<rparr>"

text \<open>Nothing entered as bill rate.\<close>

definition no_bill_form :: form where
  "no_bill_form = spec_example \<lparr> el_bill_regular := Blank \<rparr>"

section \<open>Helper facts\<close>

lemmas input_defs = client_def fee_def billR_def billOT_def payR_def hrsR_def hrsOT_def weeks_def
  houseDaily_def mealsDaily_def orientType_def orientHours_def orientPay_def bonusStart_def
  bonusComplete_def bcgReimb_def scheduleDays_def DEFAULT_SCHEDULE_DAYS_def CLIENT_FEES_def

lemmas derived_defs = hrAfterFee_def otHrAfterFee_def ND_def NW_def NH_def HA_hourly_def
  MI_hourly_def contractRegularHours_def contractOTHours_def totalContractHours_def
  autoSickHours_def sickBoxAuto_def sick_hours_written_def sickHours_def startBonusHourly_def
  completeBonusHourly_def bcgHourly_def sickHourly_def effectiveOrientPay_def
  orientPayRatePerHr_def totalOrientationPay_def orientationHourly_def PT_OVERTIME_def
  dailyRegularHours_def OT_if_above_8h_def OT_rate_if_above_40_def weeklyOnW2Taxable_def
  totalWeeklyTaxableWithOT_def weeklyStipendNT_def weeklyGross_def weeklyBillingClient_def
  monthlyBillingClient_def contractBillingClient_def hourlyMargin_def otMargin_def
  weeklyNET_def monthlyNET_def contractNET_def BURDEN_def WEEKS_IN_MONTH_def

lemmas spec_defs = spec_spread_def spec_NH_def spec_HA_hourly_def spec_MI_hourly_def
  spec_contractRegularHours_def spec_totalContractHours_def spec_sickHours_def
  spec_per_regular_hour_def spec_orientationRate_def spec_orientationHourly_def
  spec_margin_given_def spec_margin_def spec_otExcessHours_def spec_clamp_def

lemmas form_defs = spec_example_def one_week_form_def forty_hours_form_def manual_sick_form_def
  odd_pay_form_def zero_pay_form_def long_week_form_def billable_form_def no_weeks_form_def
  no_bill_form_def

subsection \<open>Rounding to cents\<close>

lemma floor_numeral_div_rat:
  "\<lfloor>(numeral a :: rat) / numeral b\<rfloor> = numeral a div numeral b"
  using floor_divide_of_int_eq [of "numeral a" "numeral b", where ?'a = rat] by simp

lemma round_cents_close:
  fixes y :: rat
  shows "\<bar>of_int \<lfloor>y * 100 + 1 / 2\<rfloor> / 100 - y\<bar> \<le> 1 / 200"
proof -
  define n where "n = \<lfloor>y * 100 + 1 / 2\<rfloor>"
  have lo: "of_int n \<le> y * 100 + 1 / 2"
    unfolding n_def by (rule of_int_floor_le)
  have hi: "y * 100 + 1 / 2 < of_int n + 1"
    unfolding n_def by linarith
  have "\<bar>(of_int n :: rat) / 100 - y\<bar> \<le> 1 / 200"
    using lo hi by linarith
  then show ?thesis
    by (simp add: n_def)
qed

lemma toFixed2_close: "\<bar>toFixed2 x - x\<bar> \<le> 1 / 200"
proof (cases "x < 0")
  case True
  have "\<bar>toFixed2 x - x\<bar> = \<bar>of_int \<lfloor>(- x) * 100 + 1 / 2\<rfloor> / 100 - (- x)\<bar>"
    using True by (simp add: toFixed2_def abs_minus_commute add.commute)
  then show ?thesis
    using round_cents_close [of "- x"] by simp
next
  case False
  then show ?thesis
    using round_cents_close [of x] by (simp add: toFixed2_def)
qed

lemma two_decimals_toFixed2: "two_decimals toFixed2"
proof -
  have "\<exists>n :: int. toFixed2 x = of_int n / 100" for x
  proof (cases "x < 0")
    case True
    then have "toFixed2 x = of_int (- \<lfloor>(- x) * 100 + 1 / 2\<rfloor>) / 100"
      by (simp add: toFixed2_def)
    then show ?thesis
      by blast
  next
    case False
    then have "toFixed2 x = of_int \<lfloor>x * 100 + 1 / 2\<rfloor> / 100"
      by (simp add: toFixed2_def)
    then show ?thesis
      by blast
  qed
  then show ?thesis
    unfolding two_decimals_def using toFixed2_close by blast
qed

text \<open>Away from half a cent there is one value a rounding to two decimals can give.\<close>

lemma two_decimals_unique:
  assumes "two_decimals toFixed" and "\<bar>of_int m / 100 - x\<bar> < 1 / 200"
  shows "toFixed x = of_int m / 100"
proof -
  obtain n :: int where n: "toFixed x = of_int n / 100" and close: "\<bar>toFixed x - x\<bar> \<le> 1 / 200"
    using assms(1) unfolding two_decimals_def by blast
  have "\<bar>(of_int n :: rat) - of_int m\<bar> < 1"
    using close assms(2) unfolding n by linarith
  then have "\<bar>n - m\<bar> < 1"
    by (metis of_int_abs of_int_diff of_int_less_1_iff)
  then have "n = m"
    by linarith
  then show ?thesis
    by (simp add: n)
qed

subsection \<open>The text placeholders\<close>

lemma texts_gm_hourly: "map_of (texts (recalc toFixed p)) ''gm_hourly'' = Some (hourlyMargin toFixed p)"
  by (simp add: recalc_def setText_calls_def fmtUSD_def)

lemma texts_pkg_w2_ot: "map_of (texts (recalc toFixed p)) ''pkg_w2_ot'' = Some (PT_OVERTIME p)"
  by (simp add: recalc_def setText_calls_def fmtUSD_def)

lemma texts_pkg_weekly_w2:
  "map_of (texts (recalc toFixed p)) ''pkg_weekly_w2'' = Some (weeklyOnW2Taxable p)"
  by (simp add: recalc_def setText_calls_def fmtUSD_def)

lemma texts_orient_total:
  "map_of (texts (recalc toFixed p)) ''orient_total'' = Some (totalOrientationPay p)"
  by (simp add: recalc_def setText_calls_def fmtUSD_def)

lemma texts_hourly:
  "map_of (texts (recalc toFixed p)) ''hourly_start'' = Some (startBonusHourly p)"
  "map_of (texts (recalc toFixed p)) ''hourly_complete'' = Some (completeBonusHourly p)"
  "map_of (texts (recalc toFixed p)) ''hourly_bcg'' = Some (bcgHourly p)"
  "map_of (texts (recalc toFixed p)) ''hourly_sick'' = Some (sickHourly toFixed p)"
  by (simp_all add: recalc_def setText_calls_def fmtUSD_def)

subsection \<open>The code's stipend rates are those of step 4\<close>

lemma NH_spec: "NH p = spec_NH p"
  by (simp add: NH_def NW_def ND_def spec_NH_def spec_spread_def)

lemma HA_hourly_spec: "HA_hourly p = spec_HA_hourly p"
  by (simp add: HA_hourly_def spec_HA_hourly_def spec_spread_def)

lemma MI_hourly_spec: "MI_hourly p = spec_MI_hourly p"
  by (simp add: MI_hourly_def spec_MI_hourly_def spec_spread_def)

subsection \<open>The spec example, to the cent\<close>

text \<open>
  Section 8 gives \<open>hrAfterFee = 47.00\<close>, \<open>weeklyNT = 245\<close>, \<open>NH = 245/36\<close>,
  \<open>contractRegularHours = 468\<close> and \<open>sickHours = 15.6\<close> for its example.
\<close>

lemma spec_example_values:
  "hrAfterFee spec_example = 47"
  "NW spec_example = 245"
  "NH spec_example = 245 / 36"
  "contractRegularHours spec_example = 468"
  "sickHours toFixed2 spec_example = 78 / 5"
  by (simp_all add: input_defs derived_defs spec_example_def toFixed2_def floor_numeral_div_rat)

subsection \<open>Forms that agree on what \<open>recalc\<close> reads\<close>

lemma outputs_cong:
  assumes "fee q = fee p" "billR q = billR p" "billOT q = billOT p" "payR q = payR p"
    "hrsR q = hrsR p" "hrsOT q = hrsOT p" "weeks q = weeks p" "houseDaily q = houseDaily p"
    "mealsDaily q = mealsDaily p" "orientType q = orientType p" "orientHours q = orientHours p"
    "bonusStart q = bonusStart p" "bonusComplete q = bonusComplete p" "bcgReimb q = bcgReimb p"
    "scheduleDays q = scheduleDays p"
    "orientPayRatePerHr q = orientPayRatePerHr p" "sickHours toFixed q = sickHours toFixed p"
  shows "setText_calls toFixed q = setText_calls toFixed p"
    and "renderGauge q (hourlyMargin toFixed q) t = renderGauge p (hourlyMargin toFixed p) t"
proof -
  have base: "hrAfterFee q = hrAfterFee p" "otHrAfterFee q = otHrAfterFee p"
    "ND q = ND p" "NW q = NW p" "NH q = NH p" "contractRegularHours q = contractRegularHours p"
    "PT_OVERTIME q = PT_OVERTIME p" "dailyRegularHours q = dailyRegularHours p"
    using assms
    by (simp_all add: hrAfterFee_def otHrAfterFee_def ND_def NW_def NH_def
        contractRegularHours_def PT_OVERTIME_def dailyRegularHours_def)
  have hourly: "startBonusHourly q = startBonusHourly p"
    "completeBonusHourly q = completeBonusHourly p" "bcgHourly q = bcgHourly p"
    "sickHourly toFixed q = sickHourly toFixed p" "totalOrientationPay q = totalOrientationPay p"
    "orientationHourly q = orientationHourly p"
    using assms base
    by (simp_all add: startBonusHourly_def completeBonusHourly_def bcgHourly_def sickHourly_def
        totalOrientationPay_def orientationHourly_def)
  have pay: "OT_rate_if_above_40 q = OT_rate_if_above_40 p"
    "weeklyOnW2Taxable q = weeklyOnW2Taxable p"
    "totalWeeklyTaxableWithOT q = totalWeeklyTaxableWithOT p"
    "weeklyStipendNT q = weeklyStipendNT p" "weeklyGross q = weeklyGross p"
    "weeklyBillingClient q = weeklyBillingClient p"
    "monthlyBillingClient q = monthlyBillingClient p"
    "contractBillingClient q = contractBillingClient p"
    using assms base
    by (simp_all add: OT_if_above_8h_def OT_rate_if_above_40_def weeklyOnW2Taxable_def
        totalWeeklyTaxableWithOT_def weeklyStipendNT_def weeklyGross_def weeklyBillingClient_def
        monthlyBillingClient_def contractBillingClient_def)
  have margin: "hourlyMargin toFixed q = hourlyMargin toFixed p"
    using assms base hourly by (simp add: hourlyMargin_def)
  have net: "weeklyNET toFixed q = weeklyNET toFixed p" "monthlyNET toFixed q = monthlyNET toFixed p"
    "contractNET toFixed q = contractNET toFixed p"
    using assms base margin
    by (simp_all add: otMargin_def weeklyNET_def monthlyNET_def contractNET_def)
  show "setText_calls toFixed q = setText_calls toFixed p"
    using assms base hourly pay margin net by (simp add: setText_calls_def)
  have "valNum (el_bill_regular q) 0 = valNum (el_bill_regular p) 0"
    using assms(2) by (simp add: billR_def)
  then show "renderGauge q (hourlyMargin toFixed q) t = renderGauge p (hourlyMargin toFixed p) t"
    using margin by (simp add: renderGauge_def)
qed

lemma pay_ot_written_idem:
  "setValue (pay_ot_written toFixed p) new = setValue (el_pay_ot p) new"
  by (cases "el_pay_ot p") (simp_all add: pay_ot_written_def)

lemma sick_hours_written_again:
  "sickBoxAuto p \<Longrightarrow> setValue (sick_hours_written toFixed p) new = setValue (el_sick_hours p) new"
  by (cases "el_sick_hours p") (simp_all add: sick_hours_written_def)

section \<open>The claims\<close>

subsection \<open>C1: the hourly gross margin\<close>

text \<open>
  C1, as stated: the hourly gross margin output equals the formula of step 15 with every
  intermediate quantity derived as in steps 1 to 8. It fails where step 6 fails (see C3):
  with automatic sick hours the code reads the sick hours back from the field it has just
  filled with two decimals. For one week of 40 hours at 100 an hour the contract has
  40 / 30 = 1.33... sick hours, the code computes with 1.33, and the margin it shows is
  50.72625 where steps 1 to 8 give 50.716.
\<close>

theorem gm_hourly_steps_counterexample:
  "map_of (texts (recalc toFixed2 one_week_form)) ''gm_hourly'' = Some (40581 / 800)
   \<and> spec_margin one_week_form = 12679 / 250
   \<and> map_of (texts (recalc toFixed2 one_week_form)) ''gm_hourly'' \<noteq> Some (spec_margin one_week_form)"
  by (simp add: texts_gm_hourly input_defs derived_defs spec_defs form_defs toFixed2_def
      floor_numeral_div_rat)

text \<open>
  The 1.33 does not depend on how a half cent is resolved: 40 / 30 is not near one, and
  every rounding to two decimals writes 1.33 there.
\<close>

lemma one_week_any_rounding:
  assumes "two_decimals toFixed"
  shows "sickHours toFixed one_week_form = 133 / 100"
proof -
  have "toFixed (4 / 3) = of_int 133 / 100"
    using assms by (rule two_decimals_unique) simp
  then show ?thesis
    by (simp add: input_defs derived_defs form_defs)
qed

text \<open>
  C1, amended: for every form, the hourly gross margin output \<open>gm_hourly\<close> equals
  \<open>hrAfterFee - payRegular * 1.23 - (NH + bcgHourly)
    - (startBonusHourly + completeBonusHourly + sickHourly) * 1.23
    - (orientationHourly * 1.23 if NonBillable else 0)\<close>
  with the intermediate quantities of steps 1 to 8, except that \<open>sickHourly\<close> is computed
  from the sick hours the code reads from the sick-hours field (C3).
\<close>

theorem gm_hourly_margin_formula:
  "map_of (texts (recalc toFixed p)) ''gm_hourly'' = Some (spec_margin_given (sickHours toFixed p) p)"
proof -
  have after_fee: "hrAfterFee p = billR p * (1 - fee p)"
    by (simp add: hrAfterFee_def)
  have spreads:
    "bcgHourly p = spec_per_regular_hour (bcgReimb p) p"
    "startBonusHourly p = spec_per_regular_hour (bonusStart p) p"
    "completeBonusHourly p = spec_per_regular_hour (bonusComplete p) p"
    "sickHourly toFixed p = spec_per_regular_hour (sickHours toFixed p * payR p) p"
    by (simp_all add: bcgHourly_def startBonusHourly_def completeBonusHourly_def sickHourly_def
        spec_per_regular_hour_def spec_contractRegularHours_def contractRegularHours_def)
  have orientation:
    "orientType p = ''Non Billable'' \<Longrightarrow> orientationHourly p = spec_orientationHourly p"
    by (simp add: orientationHourly_def totalOrientationPay_def orientPayRatePerHr_def
        effectiveOrientPay_def spec_orientationHourly_def spec_orientationRate_def
        spec_per_regular_hour_def spec_contractRegularHours_def contractRegularHours_def)
  have "hourlyMargin toFixed p = spec_margin_given (sickHours toFixed p) p"
  proof (cases "orientType p = ''Non Billable''")
    case True
    then show ?thesis
      by (simp add: hourlyMargin_def spec_margin_given_def after_fee spreads orientation NH_spec
          BURDEN_def)
  next
    case False
    then show ?thesis
      by (simp add: hourlyMargin_def spec_margin_given_def after_fee spreads NH_spec BURDEN_def)
  qed
  then show ?thesis
    by (simp only: texts_gm_hourly)
qed

theorem gm_hourly_margin_formula_witness:
  "map_of (texts (recalc toFixed2 spec_example)) ''gm_hourly'' = Some (4019 / 2340)
   \<and> spec_margin_given (sickHours toFixed2 spec_example) spec_example = 4019 / 2340"
  using gm_hourly_margin_formula [of toFixed2 spec_example]
  by (simp add: input_defs derived_defs spec_defs form_defs toFixed2_def floor_numeral_div_rat)

subsection \<open>C2: weekly taxable pay and daily overtime\<close>

text \<open>
  C2: the weekly taxable pay before the pay for \<open>hoursOT\<close> is added (the local
  \<open>weeklyOnW2Taxable\<close>, shown as \<open>pkg_weekly_w2\<close>) is, for \<open>hoursRegular > 40\<close>,
  \<open>(hoursRegular - otExcessHours * scheduleDays) * payRegular
    + (otExcessHours * scheduleDays) * (payRegular * 1.5 + NH)\<close>
  with \<open>otExcessHours = max(0, hoursRegular / max(1, scheduleDays) - 8)\<close>, and
  \<open>hoursRegular * payRegular\<close> for \<open>hoursRegular \<le> 40\<close>.
\<close>

theorem weekly_taxable_daily_overtime:
  "weeklyOnW2Taxable p =
     (if hrsR p > 40
      then (hrsR p - spec_otExcessHours p * scheduleDays p) * payR p
           + (spec_otExcessHours p * scheduleDays p) * (payR p * (3 / 2) + spec_NH p)
      else hrsR p * payR p)
   \<and> map_of (texts (recalc toFixed p)) ''pkg_weekly_w2'' = Some (weeklyOnW2Taxable p)"
proof -
  have "weeklyOnW2Taxable p =
     (if hrsR p > 40
      then (hrsR p - spec_otExcessHours p * scheduleDays p) * payR p
           + (spec_otExcessHours p * scheduleDays p) * (payR p * (3 / 2) + spec_NH p)
      else hrsR p * payR p)"
    by (simp add: weeklyOnW2Taxable_def OT_if_above_8h_def OT_rate_if_above_40_def
        PT_OVERTIME_def dailyRegularHours_def spec_otExcessHours_def NH_spec max_def)
  then show ?thesis
    by (simp only: texts_pkg_weekly_w2 simp_thms)
qed

text \<open>
  The second example of section 8: 45 hours on five days are 9 hours a day, one hour of
  excess a day; 40 hours are paid at 30 and 5 hours at 30 * 1.5 + 245 / 40.
\<close>

theorem weekly_taxable_daily_overtime_witness:
  "hrsR long_week_form = 45 \<and> spec_otExcessHours long_week_form = 1
   \<and> weeklyOnW2Taxable long_week_form = (45 - 5) * 30 + 5 * (30 * (3 / 2) + 245 / 40)
   \<and> map_of (texts (recalc toFixed2 long_week_form)) ''pkg_weekly_w2'' = Some (11645 / 8)
   \<and> hrsR spec_example = 36 \<and> weeklyOnW2Taxable spec_example = 36 * 30"
  using weekly_taxable_daily_overtime [where p = long_week_form and toFixed = toFixed2]
    weekly_taxable_daily_overtime [where p = spec_example and toFixed = toFixed2]
  by (simp add: input_defs spec_defs form_defs)

subsection \<open>C3: sick hours\<close>

text \<open>
  C3, as stated: with \<open>autoSickCalc\<close> the sick hours used are exactly
  \<open>totalContractHours / 30\<close>, without it they are the override, 0 when the override is
  missing or unparsable (\<open>spec_sickHours\<close>). Both halves fail. With 520 contract hours
  and the checkbox ticked the code uses 17.33, not 520 / 30; with the checkbox cleared
  and an empty field it uses 520 / 30, not 0.
\<close>

theorem sick_hours_counterexample:
  "sickBoxAuto forty_hours_form
   \<and> sickHours toFixed2 forty_hours_form = 1733 / 100
   \<and> spec_sickHours forty_hours_form = 52 / 3
   \<and> \<not> sickBoxAuto manual_sick_form
   \<and> el_sick_hours manual_sick_form = Blank
   \<and> sickHours toFixed2 manual_sick_form = 52 / 3
   \<and> spec_sickHours manual_sick_form = 0"
  by (simp add: input_defs derived_defs spec_defs form_defs toFixed2_def floor_numeral_div_rat)

text \<open>Every rounding to two decimals writes 17.33 for 520 / 30.\<close>

lemma forty_hours_any_rounding:
  assumes "two_decimals toFixed"
  shows "sickHours toFixed forty_hours_form = 1733 / 100"
proof -
  have "toFixed (52 / 3) = of_int 1733 / 100"
    using assms by (rule two_decimals_unique) simp
  then show ?thesis
    by (simp add: input_defs derived_defs form_defs)
qed

text \<open>
  C3, amended: if \<open>autoSickCalc\<close> is true (the checkbox is ticked or missing), the page
  has a sick-hours field and \<open>totalContractHours / 30\<close> is positive, the sick hours used
  are that quotient rounded to two decimals: a multiple of 0.01 within 0.005 of it. If
  \<open>autoSickCalc\<close> is true and the field is missing or the quotient is not positive, they
  are the quotient itself. If \<open>autoSickCalc\<close> is false, they are the value of the
  sick-hours field, and \<open>totalContractHours / 30\<close> when that field is missing or
  unparsable.
\<close>

theorem sick_hours_read_back:
  assumes "two_decimals toFixed"
  shows "(sickBoxAuto p \<and> el_sick_hours p \<noteq> Absent \<and> 0 < spec_totalContractHours p / 30 \<longrightarrow>
            (\<exists>n :: int. sickHours toFixed p = of_int n / 100)
            \<and> \<bar>sickHours toFixed p - spec_totalContractHours p / 30\<bar> \<le> 1 / 200)
    \<and> (sickBoxAuto p \<and> \<not> (el_sick_hours p \<noteq> Absent \<and> 0 < spec_totalContractHours p / 30) \<longrightarrow>
            sickHours toFixed p = spec_totalContractHours p / 30)
    \<and> (\<not> sickBoxAuto p \<longrightarrow>
            sickHours toFixed p = valNum (el_sick_hours p) (spec_totalContractHours p / 30))"
proof -
  define quotient where "quotient = spec_totalContractHours p / 30"
  have auto_eq: "autoSickHours p = quotient"
    by (simp add: quotient_def autoSickHours_def totalContractHours_def contractRegularHours_def
        contractOTHours_def spec_totalContractHours_def spec_contractRegularHours_def)
  have rounded: "(\<exists>n :: int. toFixed quotient = of_int n / 100)"
    "\<bar>toFixed quotient - quotient\<bar> \<le> 1 / 200"
    using assms unfolding two_decimals_def by blast+
  have written: "sickHours toFixed p = toFixed quotient"
    if "sickBoxAuto p" "el_sick_hours p \<noteq> Absent" "0 < quotient"
    using that by (cases "el_sick_hours p") (simp_all add: sickHours_def sick_hours_written_def auto_eq)
  have fallback: "sickHours toFixed p = quotient"
    if "sickBoxAuto p" "\<not> (el_sick_hours p \<noteq> Absent \<and> 0 < quotient)"
    using that by (cases "el_sick_hours p") (auto simp add: sickHours_def sick_hours_written_def auto_eq)
  have manual: "sickHours toFixed p = valNum (el_sick_hours p) quotient"
    if "\<not> sickBoxAuto p"
    using that by (simp add: sickHours_def sick_hours_written_def auto_eq)
  show ?thesis
    unfolding quotient_def [symmetric] using rounded written fallback manual by auto
qed

theorem sick_hours_read_back_witness:
  "two_decimals toFixed2
   \<and> sickBoxAuto forty_hours_form \<and> el_sick_hours forty_hours_form \<noteq> Absent
   \<and> spec_totalContractHours forty_hours_form / 30 = 52 / 3
   \<and> sickHours toFixed2 forty_hours_form = of_int 1733 / 100
   \<and> \<bar>sickHours toFixed2 forty_hours_form - 52 / 3\<bar> \<le> 1 / 200
   \<and> \<not> sickBoxAuto manual_sick_form
   \<and> sickHours toFixed2 manual_sick_form = valNum (el_sick_hours manual_sick_form) (52 / 3)"
  using two_decimals_toFixed2
    sick_hours_read_back [OF two_decimals_toFixed2, of forty_hours_form]
    sick_hours_read_back [OF two_decimals_toFixed2, of manual_sick_form]
    forty_hours_any_rounding [OF two_decimals_toFixed2]
  by (simp add: input_defs sickBoxAuto_def spec_defs form_defs)

subsection \<open>C4: the overtime pay rate written back\<close>

text \<open>
  C4, as stated: after a run the \<open>pay_ot\<close> field holds \<open>payRegular * 1.5\<close>, also for
  \<open>payRegular = 0\<close>. With a pay rate of 20.333 the field holds 30.50, not 30.4995; with
  a pay rate of 0 the field is emptied and holds no number.
\<close>

theorem pay_ot_counterexample:
  "payR odd_pay_form * (3 / 2) = 60999 / 2000
   \<and> el_pay_ot (form_after (recalc toFixed2 odd_pay_form)) = Num (61 / 2)
   \<and> el_pay_ot (form_after (recalc toFixed2 odd_pay_form)) \<noteq> Num (payR odd_pay_form * (3 / 2))
   \<and> payR zero_pay_form = 0
   \<and> el_pay_ot (form_after (recalc toFixed2 zero_pay_form)) = Blank
   \<and> el_pay_ot (form_after (recalc toFixed2 zero_pay_form)) \<noteq> Num (payR zero_pay_form * (3 / 2))"
  by (simp add: recalc_def pay_ot_written_def PT_OVERTIME_def payR_def form_defs toFixed2_def
      floor_numeral_div_rat)

text \<open>Every rounding to two decimals writes 30.50 for 30.4995.\<close>

lemma odd_pay_any_rounding:
  assumes "two_decimals toFixed"
  shows "el_pay_ot (form_after (recalc toFixed odd_pay_form)) = Num (61 / 2)"
proof -
  have "toFixed (60999 / 2000) = of_int 3050 / 100"
    using assms by (rule two_decimals_unique) simp
  then show ?thesis
    by (simp add: recalc_def pay_ot_written_def PT_OVERTIME_def payR_def form_defs)
qed

text \<open>
  C4, amended: on every run the \<open>pay_ot\<close> field, when the page has one, is overwritten
  whatever it held before: when \<open>payRegular > 0\<close> with \<open>payRegular * 1.5\<close> rounded to two
  decimals (a multiple of 0.01 within 0.005 of it), and when \<open>payRegular \<le> 0\<close>, 0
  included, with the empty string.
\<close>

theorem pay_ot_write_back:
  assumes "two_decimals toFixed"
  shows "(el_pay_ot p = Absent \<longrightarrow> el_pay_ot (form_after (recalc toFixed p)) = Absent)
    \<and> (el_pay_ot p \<noteq> Absent \<and> 0 < payR p \<longrightarrow>
          (\<exists>n :: int. el_pay_ot (form_after (recalc toFixed p)) = Num (of_int n / 100)
                      \<and> \<bar>of_int n / 100 - payR p * (3 / 2)\<bar> \<le> 1 / 200))
    \<and> (el_pay_ot p \<noteq> Absent \<and> payR p \<le> 0 \<longrightarrow>
          el_pay_ot (form_after (recalc toFixed p)) = Blank)"
proof -
  have field: "el_pay_ot (form_after (recalc toFixed p)) = pay_ot_written toFixed p"
    by (simp add: recalc_def)
  have missing: "pay_ot_written toFixed p = Absent" if "el_pay_ot p = Absent"
    using that by (simp add: pay_ot_written_def)
  have emptied: "pay_ot_written toFixed p = Blank" if "el_pay_ot p \<noteq> Absent" "payR p \<le> 0"
    using that by (cases "el_pay_ot p") (simp_all add: pay_ot_written_def)
  have rounded: "\<exists>n :: int. pay_ot_written toFixed p = Num (of_int n / 100)
      \<and> \<bar>of_int n / 100 - payR p * (3 / 2)\<bar> \<le> 1 / 200"
    if "el_pay_ot p \<noteq> Absent" "0 < payR p"
  proof -
    obtain n :: int where n: "toFixed (payR p * (3 / 2)) = of_int n / 100"
      and close: "\<bar>toFixed (payR p * (3 / 2)) - payR p * (3 / 2)\<bar> \<le> 1 / 200"
      using assms unfolding two_decimals_def by blast
    have "pay_ot_written toFixed p = Num (toFixed (payR p * (3 / 2)))"
      using that by (cases "el_pay_ot p") (simp_all add: pay_ot_written_def PT_OVERTIME_def)
    then have "pay_ot_written toFixed p = Num (of_int n / 100)"
      by (simp only: n)
    moreover have "\<bar>of_int n / 100 - payR p * (3 / 2)\<bar> \<le> 1 / 200"
      using close by (simp only: n)
    ultimately show ?thesis
      by blast
  qed
  show ?thesis
    unfolding field using missing emptied rounded by blast
qed

theorem pay_ot_write_back_witness:
  "two_decimals toFixed2
   \<and> el_pay_ot odd_pay_form = Num 99 \<and> payR odd_pay_form * (3 / 2) = 60999 / 2000
   \<and> el_pay_ot (form_after (recalc toFixed2 odd_pay_form)) = Num (of_int 3050 / 100)
   \<and> \<bar>of_int 3050 / 100 - payR odd_pay_form * (3 / 2)\<bar> \<le> 1 / 200
   \<and> el_pay_ot zero_pay_form = Num 45 \<and> payR zero_pay_form = 0
   \<and> el_pay_ot (form_after (recalc toFixed2 zero_pay_form)) = Blank"
  using two_decimals_toFixed2
    pay_ot_write_back [OF two_decimals_toFixed2, of odd_pay_form]
    pay_ot_write_back [OF two_decimals_toFixed2, of zero_pay_form]
    odd_pay_any_rounding [OF two_decimals_toFixed2]
  by (simp add: payR_def form_defs)

subsection \<open>C5: orientation\<close>

text \<open>
  C5: the effective orientation pay rate is 16.5 when the orientation is NonBillable and
  \<open>payRegular + HA_hourly + MI_hourly\<close> when it is Billable; \<open>totalOrientationPay\<close> (the
  \<open>orient_total\<close> output) is \<open>orientationHours\<close> times that rate; \<open>orientationHourly\<close> is
  \<open>totalOrientationPay / contractRegularHours\<close> when the orientation is NonBillable and
  \<open>contractRegularHours > 0\<close>, and 0 otherwise.
\<close>

theorem orientation_rate_and_spread:
  "(orientType p = ''Non Billable'' \<longrightarrow> orientPayRatePerHr p = 33 / 2)
   \<and> (orientType p = ''Billable'' \<longrightarrow>
        orientPayRatePerHr p = payR p + spec_HA_hourly p + spec_MI_hourly p)
   \<and> totalOrientationPay p = orientHours p * orientPayRatePerHr p
   \<and> map_of (texts (recalc toFixed p)) ''orient_total'' = Some (totalOrientationPay p)
   \<and> orientationHourly p =
       (if orientType p = ''Non Billable'' \<and> spec_contractRegularHours p > 0
        then totalOrientationPay p / spec_contractRegularHours p
        else 0)"
  by (simp add: orientPayRatePerHr_def effectiveOrientPay_def totalOrientationPay_def
      orientationHourly_def contractRegularHours_def spec_contractRegularHours_def
      HA_hourly_spec MI_hourly_spec texts_orient_total)

theorem orientation_rate_and_spread_witness:
  "orientType spec_example = ''Non Billable''
   \<and> orientPayRatePerHr spec_example = 33 / 2
   \<and> totalOrientationPay spec_example = 132
   \<and> orientationHourly spec_example = 132 / 468
   \<and> orientType billable_form = ''Billable''
   \<and> orientPayRatePerHr billable_form = 30 + 140 / 36 + 105 / 36
   \<and> map_of (texts (recalc toFixed2 billable_form)) ''orient_total'' = Some (2650 / 9)
   \<and> orientationHourly billable_form = 0"
  using orientation_rate_and_spread [where p = spec_example and toFixed = toFixed2]
    orientation_rate_and_spread [where p = billable_form and toFixed = toFixed2]
  by (simp add: input_defs spec_defs form_defs)

subsection \<open>C6: the gauge\<close>

text \<open>
  C6: for a positive target (\<open>recalc\<close> passes 20) the gauge reads, in this order of
  precedence: no input when the margin is 0 and the bill rate input is 0, negative when
  the margin is below 0, below target when \<open>0 \<le> margin < target\<close>, healthy when
  \<open>margin \<ge> target\<close>. The arc is green when \<open>margin \<ge> target\<close>, amber when
  \<open>0 < margin < target\<close> and red otherwise, and the progress fraction is
  \<open>clamp(margin / (2 * target), 0, 1)\<close>. At \<open>margin = target\<close> the gauge is healthy and green.
\<close>

theorem gauge_classification:
  assumes "0 < target"
  shows "(margin = 0 \<and> billR p = 0 \<longrightarrow>
            ma_message (renderGauge p margin target) = EnterNumbers)
    \<and> (margin < 0 \<longrightarrow> ma_message (renderGauge p margin target) = MarginNegative)
    \<and> (0 \<le> margin \<and> margin < target \<and> \<not> (margin = 0 \<and> billR p = 0) \<longrightarrow>
         ma_message (renderGauge p margin target) = BelowTarget target)
    \<and> (target \<le> margin \<longrightarrow>
         ma_message (renderGauge p margin target) = LooksHealthy
         \<and> stroke (renderGauge p margin target) = Green)
    \<and> (0 < margin \<and> margin < target \<longrightarrow> stroke (renderGauge p margin target) = Amber)
    \<and> (margin \<le> 0 \<longrightarrow> stroke (renderGauge p margin target) = Red)
    \<and> progress (renderGauge p margin target) = spec_clamp (margin / (2 * target)) 0 1
    \<and> gauge_drawn (recalc toFixed p) = renderGauge p (hourlyMargin toFixed p) 20"
  using assms
  by (auto simp add: renderGauge_def billR_def fmtUSD_def spec_clamp_def max_def min_def
      mult.commute recalc_def)

theorem gauge_classification_witness:
  "(0 :: rat) < 20
   \<and> billR no_bill_form = 0
   \<and> ma_message (renderGauge no_bill_form 0 20) = EnterNumbers
   \<and> ma_message (renderGauge spec_example (- 1) 20) = MarginNegative
   \<and> stroke (renderGauge spec_example (- 1) 20) = Red
   \<and> billR spec_example = 50
   \<and> ma_message (renderGauge spec_example 0 20) = BelowTarget 20
   \<and> stroke (renderGauge spec_example 5 20) = Amber
   \<and> progress (renderGauge spec_example 5 20) = 1 / 8
   \<and> ma_message (renderGauge spec_example 20 20) = LooksHealthy
   \<and> stroke (renderGauge spec_example 20 20) = Green
   \<and> progress (renderGauge spec_example 20 20) = 1 / 2
   \<and> progress (renderGauge spec_example 50 20) = 1"
  using gauge_classification [where target = 20 and margin = 0 and p = no_bill_form and toFixed = toFixed2]
    gauge_classification [where target = 20 and margin = "- 1" and p = spec_example and toFixed = toFixed2]
    gauge_classification [where target = 20 and margin = 0 and p = spec_example and toFixed = toFixed2]
    gauge_classification [where target = 20 and margin = 5 and p = spec_example and toFixed = toFixed2]
    gauge_classification [where target = 20 and margin = 20 and p = spec_example and toFixed = toFixed2]
    gauge_classification [where target = 20 and margin = 50 and p = spec_example and toFixed = toFixed2]
  by (simp add: billR_def form_defs spec_clamp_def)

subsection \<open>C8: no regular contract hours\<close>

text \<open>
  C8: when \<open>contractRegularHours = hoursRegular * contractWeeks\<close> is 0, the per-hour
  spreads \<open>startBonusHourly\<close>, \<open>completeBonusHourly\<close>, \<open>bcgHourly\<close>, \<open>sickHourly\<close> (the
  outputs \<open>hourly_start\<close>, \<open>hourly_complete\<close>, \<open>hourly_bcg\<close>, \<open>hourly_sick\<close>) and
  \<open>orientationHourly\<close> are all 0.
\<close>

theorem zero_contract_hours_spread:
  assumes "hrsR p * weeks p = 0"
  shows "startBonusHourly p = 0 \<and> completeBonusHourly p = 0 \<and> bcgHourly p = 0
    \<and> sickHourly toFixed p = 0 \<and> orientationHourly p = 0
    \<and> map_of (texts (recalc toFixed p)) ''hourly_start'' = Some 0
    \<and> map_of (texts (recalc toFixed p)) ''hourly_complete'' = Some 0
    \<and> map_of (texts (recalc toFixed p)) ''hourly_bcg'' = Some 0
    \<and> map_of (texts (recalc toFixed p)) ''hourly_sick'' = Some 0"
  using assms
  by (simp add: texts_hourly startBonusHourly_def completeBonusHourly_def bcgHourly_def
      sickHourly_def orientationHourly_def contractRegularHours_def)

theorem zero_contract_hours_spread_witness:
  "hrsR no_weeks_form * weeks no_weeks_form = 0
   \<and> bonusStart no_weeks_form = 500 \<and> bcgReimb no_weeks_form = 100
   \<and> orientType no_weeks_form = ''Non Billable'' \<and> totalOrientationPay no_weeks_form = 132
   \<and> startBonusHourly no_weeks_form = 0 \<and> bcgHourly no_weeks_form = 0
   \<and> sickHourly toFixed2 no_weeks_form = 0 \<and> orientationHourly no_weeks_form = 0
   \<and> map_of (texts (recalc toFixed2 no_weeks_form)) ''hourly_start'' = Some 0"
proof -
  have h: "hrsR no_weeks_form * weeks no_weeks_form = 0"
    by (simp add: input_defs form_defs)
  show ?thesis
    using h zero_contract_hours_spread [OF h, where toFixed = toFixed2]
    by (simp add: input_defs totalOrientationPay_def orientPayRatePerHr_def
        effectiveOrientPay_def form_defs)
qed

subsection \<open>C9: running twice\<close>

text \<open>
  C9: a second run on the form the first run left behind, with the sick-hours and
  overtime-pay fields as the first run wrote them, produces the same text outputs and
  the same gauge and leaves the form as it is.
\<close>

theorem recalc_idempotent: "recalc toFixed (form_after (recalc toFixed p)) = recalc toFixed p"
proof -
  define q where "q = form_after (recalc toFixed p)"
  have inputs: "fee q = fee p" "billR q = billR p" "billOT q = billOT p" "payR q = payR p"
    "hrsR q = hrsR p" "hrsOT q = hrsOT p" "weeks q = weeks p" "houseDaily q = houseDaily p"
    "mealsDaily q = mealsDaily p" "orientType q = orientType p"
    "orientHours q = orientHours p" "orientPay q = orientPay p"
    "bonusStart q = bonusStart p" "bonusComplete q = bonusComplete p"
    "bcgReimb q = bcgReimb p" "scheduleDays q = scheduleDays p"
    by (simp_all add: q_def recalc_def input_defs)
  have auto: "sickBoxAuto q = sickBoxAuto p"
    by (simp add: q_def recalc_def sickBoxAuto_def)
  have total: "autoSickHours q = autoSickHours p"
    by (simp add: autoSickHours_def totalContractHours_def contractRegularHours_def
        contractOTHours_def inputs)
  have sick_field: "el_sick_hours q = sick_hours_written toFixed p"
    by (simp add: q_def recalc_def)
  have pay_field: "el_pay_ot q = pay_ot_written toFixed p"
    by (simp add: q_def recalc_def)
  have written: "sick_hours_written toFixed q = sick_hours_written toFixed p"
  proof (cases "sickBoxAuto p")
    case True
    have "sick_hours_written toFixed q =
        setValue (sick_hours_written toFixed p)
          (if autoSickHours p > 0 then Num (toFixed (autoSickHours p)) else Blank)"
      using True by (simp add: sick_hours_written_def [of toFixed q] auto total sick_field)
    also have "\<dots> = setValue (el_sick_hours p)
          (if autoSickHours p > 0 then Num (toFixed (autoSickHours p)) else Blank)"
      using True by (rule sick_hours_written_again)
    also have "\<dots> = sick_hours_written toFixed p"
      using True by (simp add: sick_hours_written_def)
    finally show ?thesis .
  next
    case False
    then show ?thesis
      by (simp add: sick_hours_written_def auto sick_field)
  qed
  have pay_ot: "pay_ot_written toFixed q = pay_ot_written toFixed p"
  proof -
    have "pay_ot_written toFixed q =
        setValue (pay_ot_written toFixed p)
          (if payR p > 0 then Num (toFixed (PT_OVERTIME p)) else Blank)"
      by (simp add: pay_ot_written_def [of toFixed q] PT_OVERTIME_def inputs pay_field)
    also have "\<dots> = setValue (el_pay_ot p)
          (if payR p > 0 then Num (toFixed (PT_OVERTIME p)) else Blank)"
      by (rule pay_ot_written_idem)
    also have "\<dots> = pay_ot_written toFixed p"
      by (simp add: pay_ot_written_def)
    finally show ?thesis .
  qed
  have sick: "sickHours toFixed q = sickHours toFixed p"
    by (simp add: sickHours_def written total)
  have rate: "orientPayRatePerHr q = orientPayRatePerHr p"
    by (simp add: orientPayRatePerHr_def effectiveOrientPay_def HA_hourly_def MI_hourly_def
        inputs)
  have texts: "setText_calls toFixed q = setText_calls toFixed p"
    by (rule outputs_cong(1)) (simp_all only: inputs rate sick)
  have gauge: "renderGauge q (hourlyMargin toFixed q) 20 = renderGauge p (hourlyMargin toFixed p) 20"
    by (rule outputs_cong(2)) (simp_all only: inputs rate sick)
  have form: "q \<lparr> el_sick_hours := sick_hours_written toFixed q, el_pay_ot := pay_ot_written toFixed q \<rparr> = q"
    unfolding written pay_ot by (simp add: q_def recalc_def)
  have "recalc toFixed q = \<lparr> form_after = q, texts = setText_calls toFixed p,
                      gauge_drawn = renderGauge p (hourlyMargin toFixed p) 20 \<rparr>"
    by (simp only: recalc_def [of toFixed q] texts gauge form)
  also have "\<dots> = recalc toFixed p"
    by (simp add: q_def recalc_def)
  finally show ?thesis
    by (simp only: q_def)
qed

subsection \<open>C10: the orientation pay field\<close>

text \<open>
  C10: when the orientation type is Billable or NonBillable, two forms that differ only
  in the \<open>orient_pay\<close> field (whatever it holds, or whether the page has it) give the same
  text outputs, the same gauge and the same fields written back.
\<close>

theorem orient_pay_ignored:
  assumes "orientType p = ''Billable'' \<or> orientType p = ''Non Billable''"
  shows "texts (recalc toFixed (p\<lparr>el_orient_pay := v\<rparr>)) = texts (recalc toFixed p)
    \<and> gauge_drawn (recalc toFixed (p\<lparr>el_orient_pay := v\<rparr>)) = gauge_drawn (recalc toFixed p)
    \<and> form_after (recalc toFixed (p\<lparr>el_orient_pay := v\<rparr>))
        = (form_after (recalc toFixed p))\<lparr>el_orient_pay := v\<rparr>"
proof -
  define q where "q = p\<lparr>el_orient_pay := v\<rparr>"
  have inputs: "fee q = fee p" "billR q = billR p" "billOT q = billOT p" "payR q = payR p"
    "hrsR q = hrsR p" "hrsOT q = hrsOT p" "weeks q = weeks p" "houseDaily q = houseDaily p"
    "mealsDaily q = mealsDaily p" "orientType q = orientType p"
    "orientHours q = orientHours p"
    "bonusStart q = bonusStart p" "bonusComplete q = bonusComplete p"
    "bcgReimb q = bcgReimb p" "scheduleDays q = scheduleDays p"
    by (simp_all add: q_def input_defs)
  have fields: "el_sick_hours q = el_sick_hours p" "el_pay_ot q = el_pay_ot p"
    "sickBoxAuto q = sickBoxAuto p"
    by (simp_all add: q_def sickBoxAuto_def)
  have total: "autoSickHours q = autoSickHours p"
    by (simp add: autoSickHours_def totalContractHours_def contractRegularHours_def
        contractOTHours_def inputs)
  have written: "sick_hours_written toFixed q = sick_hours_written toFixed p"
    by (simp add: sick_hours_written_def fields total)
  have pay_ot: "pay_ot_written toFixed q = pay_ot_written toFixed p"
    by (simp add: pay_ot_written_def PT_OVERTIME_def fields inputs)
  have sick: "sickHours toFixed q = sickHours toFixed p"
    by (simp add: sickHours_def written total)
  have rate: "orientPayRatePerHr q = orientPayRatePerHr p"
    using assms
    by (auto simp add: orientPayRatePerHr_def effectiveOrientPay_def HA_hourly_def MI_hourly_def
        inputs)
  have texts: "setText_calls toFixed q = setText_calls toFixed p"
    by (rule outputs_cong(1)) (simp_all only: inputs rate sick)
  have gauge: "renderGauge q (hourlyMargin toFixed q) 20 = renderGauge p (hourlyMargin toFixed p) 20"
    by (rule outputs_cong(2)) (simp_all only: inputs rate sick)
  have "recalc toFixed q = \<lparr> form_after = q \<lparr> el_sick_hours := sick_hours_written toFixed p,
                                          el_pay_ot := pay_ot_written toFixed p \<rparr>,
                      texts = setText_calls toFixed p,
                      gauge_drawn = renderGauge p (hourlyMargin toFixed p) 20 \<rparr>"
    by (simp only: recalc_def [of toFixed q] texts gauge written pay_ot)
  then show ?thesis
    unfolding q_def by (simp add: recalc_def)
qed

theorem orient_pay_ignored_witness:
  "orientType billable_form = ''Billable''
   \<and> el_orient_pay billable_form = Num (33 / 2)
   \<and> texts (recalc toFixed2 (billable_form\<lparr>el_orient_pay := Num 1000\<rparr>)) = texts (recalc toFixed2 billable_form)
   \<and> gauge_drawn (recalc toFixed2 (billable_form\<lparr>el_orient_pay := Num 1000\<rparr>))
       = gauge_drawn (recalc toFixed2 billable_form)
   \<and> orientType spec_example = ''Non Billable''
   \<and> texts (recalc toFixed2 (spec_example\<lparr>el_orient_pay := Absent\<rparr>)) = texts (recalc toFixed2 spec_example)"
proof -
  have b: "orientType billable_form = ''Billable'' \<or> orientType billable_form = ''Non Billable''"
    by (simp add: orientType_def form_defs)
  have n: "orientType spec_example = ''Billable'' \<or> orientType spec_example = ''Non Billable''"
    by (simp add: orientType_def form_defs)
  show ?thesis
    using orient_pay_ignored [OF b, where v = "Num 1000" and toFixed = toFixed2]
      orient_pay_ignored [OF n, where v = Absent and toFixed = toFixed2]
    by (simp add: orientType_def form_defs)
qed

subsection \<open>C7: finite outputs\<close>

















end
